theory Spec2Isabelle
  imports Complex_Main
begin

text \<open>
  A model of \<open>lib/handler/cache-handler.js\<close>: the \<open>CacheHandler\<close> that sits between the
  transport and a wrapped response handler, decides from the response headers whether a
  response may be stored, buffers its body, and hands the finished entry to a cache
  store. The functions below follow the source function by function; state is passed
  explicitly, a thrown exception is an error value, and the JavaScript built-ins and the
  modules that are not part of the handler are parameters.
\<close>

section \<open>JavaScript values used by the cache handler\<close>

text \<open>
  A JavaScript number is \<open>NaN\<close>, one of the two infinities, or a finite value. Finite
  doubles are modelled by the rationals they denote and arithmetic on them is exact;
  this agrees with IEEE arithmetic on every integer of magnitude below \<open>2^53\<close>, which
  covers the byte counts and millisecond timestamps the handler computes.
\<close>

datatype number = NaN | NInf | Fin rat | PInf

text \<open>The relational operators: every comparison with \<open>NaN\<close> is false.\<close>

fun lt :: "number \<Rightarrow> number \<Rightarrow> bool" where
  "lt NaN b = False"
| "lt a NaN = False"
| "lt NInf NInf = False"
| "lt NInf b = True"
| "lt a NInf = False"
| "lt PInf b = False"
| "lt (Fin x) PInf = True"
| "lt (Fin x) (Fin y) = (x < y)"

fun eqn :: "number \<Rightarrow> number \<Rightarrow> bool" where
  "eqn NaN b = False"
| "eqn a NaN = False"
| "eqn a b = (a = b)"

definition gt :: "number \<Rightarrow> number \<Rightarrow> bool" where
  "gt a b = lt b a"

definition le :: "number \<Rightarrow> number \<Rightarrow> bool" where
  "le a b = (lt a b \<or> eqn a b)"

definition ge :: "number \<Rightarrow> number \<Rightarrow> bool" where
  "ge a b = le b a"

text \<open>Addition and subtraction: opposite infinities cancel to \<open>NaN\<close>.\<close>

fun add :: "number \<Rightarrow> number \<Rightarrow> number" where
  "add NaN b = NaN"
| "add a NaN = NaN"
| "add NInf PInf = NaN"
| "add PInf NInf = NaN"
| "add NInf b = NInf"
| "add a NInf = NInf"
| "add PInf b = PInf"
| "add a PInf = PInf"
| "add (Fin x) (Fin y) = Fin (x + y)"

fun neg :: "number \<Rightarrow> number" where
  "neg NaN = NaN"
| "neg NInf = PInf"
| "neg PInf = NInf"
| "neg (Fin x) = Fin (- x)"

definition sub :: "number \<Rightarrow> number \<Rightarrow> number" where
  "sub a b = add a (neg b)"

text \<open>Truthiness of a number (\<open>0\<close> and \<open>NaN\<close> are falsy) and \<open>Number.isInteger\<close>.\<close>

fun truthy_number :: "number \<Rightarrow> bool" where
  "truthy_number NaN = False"
| "truthy_number (Fin x) = (x \<noteq> 0)"
| "truthy_number a = True"

fun isInteger :: "number \<Rightarrow> bool" where
  "isInteger (Fin x) = (of_int \<lfloor>x\<rfloor> = x)"
| "isInteger a = False"

text \<open>
  A parsed header record maps a lower-cased header name to a string, or to an array of
  strings when the header occurs several times; reading a missing property gives
  \<open>undefined\<close>.
\<close>

datatype jsval = Undefined | Str string | Arr "string list"

fun truthy :: "jsval \<Rightarrow> bool" where
  "truthy Undefined = False"
| "truthy (Str s) = (s \<noteq> [])"
| "truthy (Arr xs) = True"

type_synonym headers = "(string \<times> jsval) list"

definition property :: "headers \<Rightarrow> string \<Rightarrow> jsval" where
  "property h k = (case map_of h k of None \<Rightarrow> Undefined | Some v \<Rightarrow> v)"

section \<open>Cache-Control directives\<close>

text \<open>
  The directive record that \<open>parseCacheControlHeader\<close> of \<open>lib/util/cache.js\<close> returns.
  A boolean directive is \<open>true\<close> or missing, a numeric one is an integer count of seconds
  or missing, and \<open>no-cache\<close> and \<open>private\<close> are missing, \<open>true\<close>, or the array of header
  names of their quoted argument.
\<close>

datatype names_directive = Missing | Unqualified | Qualified "string list"

record directives =
  public :: bool
  s_maxage :: "int option"
  must_revalidate :: bool
  private' :: names_directive
  no_cache :: names_directive
  no_store :: bool
  no_transform :: bool
  must_understand :: bool
  proxy_revalidate :: bool
  immutable :: bool
  max_age :: "int option"
  stale_while_revalidate :: "int option"

text \<open>Truthiness of a numeric directive: missing and \<open>0\<close> are both falsy.\<close>

fun truthy_seconds :: "int option \<Rightarrow> bool" where
  "truthy_seconds None = False"
| "truthy_seconds (Some n) = (n \<noteq> 0)"

text \<open>\<open>Array.isArray(d) && d.includes(name)\<close>.\<close>

fun isArrayIncluding :: "names_directive \<Rightarrow> string \<Rightarrow> bool" where
  "isArrayIncluding (Qualified names) name = (name \<in> set names)"
| "isArrayIncluding d name = False"

section \<open>The environment of the handler\<close>

text \<open>
  What the handler calls but does not define: the built-ins \<open>Number(v)\<close> and
  \<open>new Date(v).getTime()\<close>, the property names an array inherits from its prototype chain
  (for the \<open>in\<close> operator), \<open>util.parseHeaders\<close> of \<open>lib/core/util.js\<close>, and the two parsers
  of \<open>lib/util/cache.js\<close>. The definitions below take them as a parameter, so the theorems
  hold for every implementation of them.
\<close>

record env =
  Number :: "jsval \<Rightarrow> number"
  getTime :: "jsval \<Rightarrow> number"
  inherited :: "string \<Rightarrow> bool"
  parseHeaders :: "string list \<Rightarrow> headers"
  parseCacheControlHeader :: "jsval \<Rightarrow> directives"
  parseVaryHeader :: "jsval \<Rightarrow> headers \<Rightarrow> headers"

section \<open>Cacheability and the freshness windows\<close>

text \<open>
  \<open>canCacheResponse\<close> (lines 237 to 289). \<open>headers\<close> are the parsed headers of the
  response, as \<open>onHeaders\<close> passes them.
\<close>

definition canCacheResponse :: "int \<Rightarrow> headers \<Rightarrow> directives \<Rightarrow> bool" where
  "canCacheResponse statusCode headers cacheControlDirectives =
     (if statusCode \<noteq> 200 \<and> statusCode \<noteq> 307 then False
      else if \<not> public cacheControlDirectives \<and>
              \<not> truthy_seconds (s_maxage cacheControlDirectives) \<and>
              \<not> must_revalidate cacheControlDirectives then False
      else if private' cacheControlDirectives = Unqualified \<or>
              no_cache cacheControlDirectives = Unqualified \<or>
              no_store cacheControlDirectives \<or>
              no_transform cacheControlDirectives \<or>
              must_understand cacheControlDirectives \<or>
              proxy_revalidate cacheControlDirectives then False
      else if property headers ''vary'' = Str ''*'' then False
      else if truthy (property headers ''authorization'') then
        (if isArrayIncluding (no_cache cacheControlDirectives) ''authorization'' then False
         else if isArrayIncluding (private' cacheControlDirectives) ''authorization'' then False
         else True)
      else True)"

text \<open>
  \<open>determineStaleAt\<close> (lines 297 to 322) returns the staleness window in milliseconds,
  or \<open>undefined\<close> (\<open>None\<close>). \<open>dateNow\<close> is what \<open>Date.now()\<close> returns inside the
  function. \<open>determineDeleteAt\<close> (lines 328 to 334) follows.
\<close>

definition determineStaleAt :: "env \<Rightarrow> int \<Rightarrow> headers \<Rightarrow> directives \<Rightarrow> number option" where
  "determineStaleAt E dateNow headers cacheControlDirectives =
     (let sMaxAge = s_maxage cacheControlDirectives in
      if truthy_seconds sMaxAge then Some (Fin (of_int (the sMaxAge * 1000)))
      else if immutable cacheControlDirectives then Some (Fin 31536000)
      else
        let maxAge = max_age cacheControlDirectives in
        if truthy_seconds maxAge then Some (Fin (of_int (the maxAge * 1000)))
        else if truthy (property headers ''expire'') then
          Some (sub (Fin (of_int dateNow)) (getTime E (property headers ''expire'')))
        else None)"

definition determineDeleteAt :: "directives \<Rightarrow> number \<Rightarrow> number" where
  "determineDeleteAt cacheControlDirectives staleAt =
     (if truthy_seconds (stale_while_revalidate cacheControlDirectives)
      then Fin (of_int (the (stale_while_revalidate cacheControlDirectives) * 1000))
      else staleAt)"

section \<open>Stripping headers\<close>

text \<open>
  What a JavaScript \<open>throw\<close> carries: a \<open>TypeError\<close> raised by the runtime (a property read
  on \<open>undefined\<close> or \<open>null\<close>, a call of something that is not a function), or the
  \<open>Error\<close> that \<open>stripNecessaryHeaders\<close> throws itself.
\<close>

datatype error = TypeError | Error string

text \<open>
  A call that throws is modelled by its error alone: the state the handler is left in
  after a throw is not part of the model.
\<close>

text \<open>
  \<open>parsedHeaders[i]\<close> reads the property whose key is the decimal numeral of \<open>i\<close>.
  The numerals of different indices differ; the loop's termination rests on that.
\<close>

fun toString :: "nat \<Rightarrow> string" where
  "toString n =
     (if n < 10 then [''0123456789'' ! n]
      else toString (n div 10) @ [''0123456789'' ! (n mod 10)])"

declare toString.simps [simp del]

fun fromDigits :: "nat \<Rightarrow> string \<Rightarrow> nat" where
  "fromDigits a [] = a"
| "fromDigits a (c # cs) = fromDigits (10 * a + (of_char c - 48)) cs"

lemma fromDigits_append: "fromDigits a (xs @ ys) = fromDigits (fromDigits a xs) ys"
  by (induction xs arbitrary: a) auto

lemma of_char_digit: "d < 10 \<Longrightarrow> (of_char (''0123456789'' ! d) :: nat) = 48 + d"
proof -
  assume "d < 10"
  then have "d \<in> {0, 1, 2, 3, 4, 5, 6, 7, 8, 9}" by auto
  then show ?thesis by auto
qed

lemma fromDigits_toString: "fromDigits 0 (toString n) = n"
proof (induction n rule: toString.induct)
  case (1 n)
  show ?case
  proof (cases "n < 10")
    case True
    then show ?thesis by (subst toString.simps) (simp add: of_char_digit)
  next
    case False
    have "n mod 10 < 10" by simp
    with False 1 show ?thesis
      by (subst toString.simps) (simp add: fromDigits_append of_char_digit)
  qed
qed

lemma toString_inj: "toString m = toString n \<Longrightarrow> m = n"
  by (metis fromDigits_toString)

text \<open>
  \<open>header.indexOf(':')\<close>: on a string the position of the first colon, on an array the
  position of the first element equal to \<open>':'\<close>, in both cases \<open>-1\<close> when there is none;
  on \<open>undefined\<close> the property read throws. \<open>header.substring(0, k)\<close> exists on
  strings only.
\<close>

fun firstIndex :: "'a \<Rightarrow> 'a list \<Rightarrow> int" where
  "firstIndex x [] = - 1"
| "firstIndex x (y # ys) =
     (if x = y then 0
      else if firstIndex x ys = - 1 then - 1 else firstIndex x ys + 1)"

fun indexOf :: "jsval \<Rightarrow> error + int" where
  "indexOf Undefined = Inl TypeError"
| "indexOf (Str s) = Inr (firstIndex CHR '':'' s)"
| "indexOf (Arr xs) = Inr (firstIndex '':'' xs)"

fun substring :: "jsval \<Rightarrow> int \<Rightarrow> error + string" where
  "substring (Str s) k = Inr (take (nat k) s)"
| "substring v k = Inl TypeError"

text \<open>
  \<open>rawHeaders.slice(0, e)\<close> (a negative end counts from the end of the array) and
  \<open>rawHeaders[i]\<close>, which is \<open>undefined\<close> (\<open>None\<close>) out of range.
\<close>

definition slice :: "'a list \<Rightarrow> int \<Rightarrow> 'a list" where
  "slice xs e = (if e < 0 then take (nat (int (length xs) + e)) xs else take (nat e) xs)"

definition element :: "'a list \<Rightarrow> nat \<Rightarrow> 'a option" where
  "element xs i = (if i < length xs then Some (xs ! i) else None)"

text \<open>
  \<open>name in arr\<close> asks whether the array has a property of that name: one of its indices,
  \<open>length\<close>, or a name inherited from the prototype chain. It does not look at the
  array's elements.
\<close>

definition js_in :: "env \<Rightarrow> string \<Rightarrow> string list \<Rightarrow> bool" where
  "js_in E name arr =
     (name \<in> set (map toString [0..<length arr]) \<or> name = ''length'' \<or> inherited E name)"

text \<open>
  The \<open>for\<close> loop of \<open>stripNecessaryHeaders\<close>, from index \<open>i\<close> on.
  \<open>strippedRawHeaders\<close> is \<open>None\<close> while the variable is still unassigned. The
  handler passes its parsed header record as \<open>parsedHeaders\<close>, so
  \<open>parsedHeaders.length\<close> and \<open>parsedHeaders[i]\<close> are property reads on that record.
\<close>

function strip_loop ::
  "env \<Rightarrow> string list \<Rightarrow> headers \<Rightarrow> string list \<Rightarrow> nat \<Rightarrow> string option list option
     \<Rightarrow> error + string option list option" where
  "strip_loop E rawHeaders parsedHeaders headersToRemove i strippedRawHeaders =
     (if \<not> lt (Fin (of_nat i)) (Number E (property parsedHeaders ''length''))
      then Inr strippedRawHeaders
      else
        case indexOf (property parsedHeaders (toString i)) of
          Inl e \<Rightarrow> Inl e
        | Inr kvDelimiterIndex \<Rightarrow>
            if kvDelimiterIndex = - 1 then Inl (Error ''header missing kv delimiter'')
            else
              case substring (property parsedHeaders (toString i)) kvDelimiterIndex of
                Inl e \<Rightarrow> Inl e
              | Inr headerName \<Rightarrow>
                  strip_loop E rawHeaders parsedHeaders headersToRemove (i + 1)
                    (if js_in E headerName headersToRemove then
                       (case strippedRawHeaders of
                          None \<Rightarrow> Some (map Some (slice rawHeaders (int i - 1)))
                        | Some s \<Rightarrow> Some (s @ [element rawHeaders i]))
                     else strippedRawHeaders))"
  by pat_completeness auto

text \<open>
  Termination: below a finite bound the distance to the bound decreases; under an
  infinite bound each further round needs a further numeral among the record's keys.
\<close>

definition remaining :: "headers \<Rightarrow> nat \<Rightarrow> string set" where
  "remaining h i = {k \<in> fst ` set h. \<exists>j\<ge>i. k = toString j}"

lemma remaining_step:
  assumes "property h (toString i) \<noteq> Undefined"
  shows "card (remaining h (i + 1)) < card (remaining h i)"
proof -
  from assms have "map_of h (toString i) \<noteq> None"
    by (auto simp: property_def split: option.splits)
  then have mem: "toString i \<in> fst ` set h"
    by (simp add: map_of_eq_None_iff)
  have fin: "finite (remaining h i)"
    by (simp add: remaining_def)
  have "toString i \<in> remaining h i"
    using mem by (auto simp: remaining_def)
  moreover have "toString i \<notin> remaining h (i + 1)"
    by (auto simp: remaining_def dest: toString_inj)
  moreover have "remaining h (i + 1) \<subseteq> remaining h i"
  proof
    fix k assume "k \<in> remaining h (i + 1)"
    then obtain j where kh: "k \<in> fst ` set h" and ij: "i + 1 \<le> j" and kj: "k = toString j"
      unfolding remaining_def by blast
    from ij have "i \<le> j" by simp
    with kj have "\<exists>j\<ge>i. k = toString j" by blast
    with kh show "k \<in> remaining h i"
      unfolding remaining_def by simp
  qed
  ultimately have "remaining h (i + 1) \<subset> remaining h i" by auto
  with fin show ?thesis by (rule psubset_card_mono)
qed

termination strip_loop
proof (relation "measure (\<lambda>(E, rawHeaders, parsedHeaders, headersToRemove, i, s).
         case Number E (property parsedHeaders ''length'') of
           Fin q \<Rightarrow> nat \<lceil>q\<rceil> - i
         | PInf \<Rightarrow> card (remaining parsedHeaders i)
         | _ \<Rightarrow> 0)"; clarsimp)
  fix E :: env and parsedHeaders :: headers and i :: nat and k :: int and name :: string
  assume lt: "lt (Fin (of_nat i)) (Number E (property parsedHeaders ''length''))"
    and ix: "indexOf (property parsedHeaders (toString i)) = Inr k"
  from ix have def: "property parsedHeaders (toString i) \<noteq> Undefined"
    by auto
  show "(case Number E (property parsedHeaders ''length'') of
           Fin q \<Rightarrow> nat \<lceil>q\<rceil> - Suc i
         | PInf \<Rightarrow> card (remaining parsedHeaders (Suc i))
         | _ \<Rightarrow> 0)
        < (case Number E (property parsedHeaders ''length'') of
           Fin q \<Rightarrow> nat \<lceil>q\<rceil> - i
         | PInf \<Rightarrow> card (remaining parsedHeaders i)
         | _ \<Rightarrow> 0)"
  proof (cases "Number E (property parsedHeaders ''length'')")
    case (Fin q)
    with lt have "of_nat i < q" by simp
    then have "int i < \<lceil>q\<rceil>" by linarith
    with Fin show ?thesis by simp
  next
    case PInf
    with remaining_step [OF def] show ?thesis by simp
  qed (use lt in auto)
qed

declare strip_loop.simps [simp del]

text \<open>
  \<open>stripNecessaryHeaders\<close> (lines 343 to 377). \<open>names_of\<close> gives the names that
  \<open>headersToRemove.push(...d)\<close> adds when \<open>d\<close> is an array; the last line is
  \<open>strippedRawHeaders ??= rawHeaders\<close>.
\<close>

fun names_of :: "names_directive \<Rightarrow> string list" where
  "names_of (Qualified names) = names"
| "names_of d = []"

definition stripNecessaryHeaders ::
  "env \<Rightarrow> string list \<Rightarrow> headers \<Rightarrow> directives \<Rightarrow> error + string option list" where
  "stripNecessaryHeaders E rawHeaders parsedHeaders cacheControlDirectives =
     (let headersToRemove =
            [''connection''] @ names_of (no_cache cacheControlDirectives)
              @ names_of (private' cacheControlDirectives)
      in case strip_loop E rawHeaders parsedHeaders headersToRemove 0 None of
           Inl e \<Rightarrow> Inl e
         | Inr None \<Rightarrow> Inr (map Some rawHeaders)
         | Inr (Some strippedRawHeaders) \<Rightarrow> Inr strippedRawHeaders)"

section \<open>The handler's state\<close>

text \<open>
  \<open>CacheStoreValue\<close>. A stored raw header is \<open>None\<close> where the array holds
  \<open>undefined\<close>; \<open>rawTrailers\<close> is \<open>None\<close> while unset or \<open>null\<close>.
\<close>

record entry =
  complete' :: bool
  statusCode :: int
  statusMessage :: "string option"
  rawHeaders :: "string option list"
  rawTrailers :: "string list option"
  body :: "string list"
  vary :: "headers option"
  size' :: number
  cachedAt :: number
  staleAt :: number
  deleteAt :: number

text \<open>The request the handler was created for (\<open>#req\<close>), which is also the store's key.\<close>

record request =
  origin :: string
  path :: string
  method' :: string
  req_headers :: headers

text \<open>
  The store (\<open>#opts.store\<close>): its three getters, what its \<open>put\<close> returns (nothing, or a
  promise that is fulfilled, \<open>Promise None\<close>, or rejected with a reason), and the
  list of the \<open>put\<close> calls made so far. \<open>maxEntrySize\<close> is \<open>None\<close> when the getter
  yields \<open>undefined\<close> or \<open>null\<close>.
\<close>

datatype put_outcome = Void | Promise "string option"

record store =
  entryCount :: number
  maxEntries :: number
  maxEntrySize :: "number option"
  put_result :: "request \<Rightarrow> entry \<Rightarrow> put_outcome"
  puts :: "(request \<times> entry) list"

text \<open>
  The wrapped handler (\<open>#handler\<close>): which of the four methods it has, and what a method
  returns (\<open>None\<close> for \<open>undefined\<close>) given the calls it has received before. \<open>calls\<close>
  in the state is the sequence of calls it has received. The \<open>resume\<close> callback is an
  opaque token.
\<close>

type_synonym resume = nat

datatype call =
    OnHeaders int "string list" resume "string option" headers
  | OnData string
  | OnComplete "string list option"
  | OnError string

type_synonym ret = "bool option"

record wrapped =
  has_onHeaders :: bool
  has_onData :: bool
  has_onComplete :: bool
  has_onError :: bool
  returns :: "call list \<Rightarrow> call \<Rightarrow> ret"

record state =
  store :: store
  req :: request
  handler :: wrapped
  value' :: "entry option"
  calls :: "call list"

section \<open>The four event methods\<close>

text \<open>
  A call of a method of the wrapped handler appends the call to what the wrapped
  handler has received and yields its return value. \<open>getMaxEntrySize\<close> is
  \<open>this.#opts.store.maxEntrySize ?? Infinity\<close> (lines 203 to 205).
\<close>

definition invoke :: "state \<Rightarrow> call \<Rightarrow> ret \<times> state" where
  "invoke st c = (returns (handler st) (calls st) c, st\<lparr>calls := calls st @ [c]\<rparr>)"

definition getMaxEntrySize :: "state \<Rightarrow> number" where
  "getMaxEntrySize st = (case maxEntrySize (store st) of None \<Rightarrow> PInf | Some n \<Rightarrow> n)"

text \<open>
  \<open>#getSizeOfBuffers\<close> (lines 211 to 227): reading \<open>arr.length\<close> throws when the
  array is \<open>null\<close> (trailers may be); both branches of the \<open>typeof\<close> test add up the elements' lengths, the
  \<open>length\<close> of a string and the \<open>byteLength\<close> of a buffer, which are both the length of
  the list here. \<open>length_or_0\<close> is \<open>statusMessage?.length ?? 0\<close>.
\<close>

fun getSizeOfBuffers :: "string list option \<Rightarrow> error + number" where
  "getSizeOfBuffers None = Inl TypeError"
| "getSizeOfBuffers (Some arr) = Inr (Fin (of_nat (sum_list (map length arr))))"

fun length_or_0 :: "string option \<Rightarrow> number" where
  "length_or_0 None = Fin 0"
| "length_or_0 (Some s) = Fin (of_nat (length s))"

text \<open>
  The three early returns of \<open>onHeaders\<close> call \<open>this.#handler.onHeaders\<close> directly,
  which throws when the wrapped handler has no such method; the last return tests
  \<open>typeof this.#handler.onHeaders === 'function'\<close> first.
\<close>

definition call_onHeaders :: "state \<Rightarrow> call \<Rightarrow> error + ret \<times> state" where
  "call_onHeaders st c = (if has_onHeaders (handler st) then Inr (invoke st c) else Inl TypeError)"

definition forward_onHeaders :: "state \<Rightarrow> call \<Rightarrow> error + ret \<times> state" where
  "forward_onHeaders st c = (if has_onHeaders (handler st) then Inr (invoke st c) else Inr (None, st))"

text \<open>
  \<open>onHeaders\<close> (lines 51 to 139). \<open>now\<close> is the reading of \<open>Date.now()\<close> in
  \<open>onHeaders\<close> and \<open>dateNow\<close> the later one inside \<open>determineStaleAt\<close>. The parameters \<open>code\<close>, \<open>raw\<close>, \<open>message\<close> and
  \<open>hdrs\<close> are the source's \<open>statusCode\<close>, \<open>rawHeaders\<close>, \<open>statusMessage\<close> and
  \<open>headers\<close> (\<open>None\<close> when the caller leaves it out, so that the default
  \<open>util.parseHeaders(rawHeaders)\<close> applies, see \<open>defaultHeaders\<close>); \<open>staleIn\<close> and
  \<open>deleteIn\<close> are the source's local \<open>staleAt\<close> and \<open>deleteAt\<close>, which are windows, not timestamps.
\<close>

definition defaultHeaders :: "env \<Rightarrow> string list \<Rightarrow> headers option \<Rightarrow> headers" where
  "defaultHeaders E raw hdrs = (case hdrs of None \<Rightarrow> parseHeaders E raw | Some h \<Rightarrow> h)"

definition onHeaders ::
  "env \<Rightarrow> int \<Rightarrow> int \<Rightarrow> state \<Rightarrow> int \<Rightarrow> string list \<Rightarrow> resume \<Rightarrow> string option \<Rightarrow> headers option
     \<Rightarrow> error + ret \<times> state" where
  "onHeaders E now dateNow st code raw resume message hdrs =
     (let headers = defaultHeaders E raw hdrs;
          cacheControlHeader = property headers ''cache-control'';
          contentLengthHeader = property headers ''content-length''
      in
      if \<not> truthy cacheControlHeader \<or> \<not> truthy contentLengthHeader
      then call_onHeaders st (OnHeaders code raw resume message headers)
      else
        let maxEntrySize = getMaxEntrySize st;
            contentLength = Number E (property headers ''content-length'')
        in
        case getSizeOfBuffers (Some raw) of
          Inl e \<Rightarrow> Inl e
        | Inr rawSize \<Rightarrow>
            let currentSize = add (add rawSize (length_or_0 message)) (Fin 64) in
            if \<not> isInteger contentLength \<or> gt contentLength maxEntrySize \<or>
               gt currentSize maxEntrySize \<or>
               ge (entryCount (store st)) (maxEntries (store st))
            then call_onHeaders st (OnHeaders code raw resume message headers)
            else
              let cacheControlDirectives = parseCacheControlHeader E cacheControlHeader in
              if \<not> canCacheResponse code headers cacheControlDirectives
              then call_onHeaders st (OnHeaders code raw resume message headers)
              else
                case determineStaleAt E dateNow headers cacheControlDirectives of
                  None \<Rightarrow> forward_onHeaders st (OnHeaders code raw resume message headers)
                | Some staleIn \<Rightarrow>
                    if \<not> truthy_number staleIn
                    then forward_onHeaders st (OnHeaders code raw resume message headers)
                    else
                      let varyDirectives =
                            (if truthy (property headers ''vary'')
                             then Some (parseVaryHeader E (property headers ''vary'')
                                          (req_headers (req st)))
                             else None);
                          deleteIn = determineDeleteAt cacheControlDirectives staleIn
                      in
                      case stripNecessaryHeaders E raw headers cacheControlDirectives of
                        Inl e \<Rightarrow> Inl e
                      | Inr strippedHeaders \<Rightarrow>
                          forward_onHeaders
                            (st\<lparr>value' := Some
                               \<lparr>complete' = False,
                                statusCode = code,
                                statusMessage = message,
                                rawHeaders = strippedHeaders,
                                rawTrailers = None,
                                body = [],
                                vary = varyDirectives,
                                size' = currentSize,
                                cachedAt = Fin (of_int now),
                                staleAt = add (Fin (of_int now)) staleIn,
                                deleteAt = add (Fin (of_int now)) deleteIn\<rparr>\<rparr>)
                            (OnHeaders code raw resume message headers))"

text \<open>
  \<open>onData\<close> (lines 147 to 161), \<open>onComplete\<close> (lines 168 to 186) and \<open>onError\<close>
  (lines 193 to 198).
\<close>

definition onData :: "state \<Rightarrow> string \<Rightarrow> error + ret \<times> state" where
  "onData st chunk =
     (let st1 =
        (case value' st of
           None \<Rightarrow> st
         | Some v \<Rightarrow>
             let v1 = v\<lparr>size' := add (size' v) (Fin (of_nat (length chunk)))\<rparr> in
             if gt (size' v1) (getMaxEntrySize st) then st\<lparr>value' := None\<rparr>
             else st\<lparr>value' := Some (v1\<lparr>body := body v1 @ [chunk]\<rparr>)\<rparr>)
      in if has_onData (handler st1) then Inr (invoke st1 (OnData chunk)) else Inr (None, st1))"

definition forward_onComplete :: "state \<Rightarrow> string list option \<Rightarrow> ret \<times> state" where
  "forward_onComplete st trailers =
     (if has_onComplete (handler st) then invoke st (OnComplete trailers) else (None, st))"

text \<open>
  \<open>result.catch(err => this.#handler.onError(err))\<close>: when the promise returned by
  \<open>put\<close> is rejected, the callback runs after \<open>onComplete\<close> has returned and calls the
  wrapped handler's \<open>onError\<close> with the reason. The wrapped handler receives nothing when
  it has no such method (the callback then throws inside the promise).
\<close>

definition settle :: "put_outcome \<Rightarrow> state \<Rightarrow> state" where
  "settle result st =
     (case result of
        Promise (Some err) \<Rightarrow>
          if has_onError (handler st) then snd (invoke st (OnError err)) else st
      | _ \<Rightarrow> st)"

definition onComplete :: "state \<Rightarrow> string list option \<Rightarrow> error + ret \<times> state" where
  "onComplete st trailers =
     (case value' st of
        None \<Rightarrow> Inr (forward_onComplete st trailers)
      | Some v \<Rightarrow>
          (case getSizeOfBuffers trailers of
             Inl e \<Rightarrow> Inl e
           | Inr n \<Rightarrow>
               let v1 = v\<lparr>complete' := True, rawTrailers := trailers, size' := add (size' v) n\<rparr>;
                   st1 = st\<lparr>value' := Some v1\<rparr>
               in
               if gt (getMaxEntrySize st1) (size' v1) then
                 let result = put_result (store st1) (req st1) v1;
                     st2 = st1\<lparr>store := (store st1)\<lparr>puts := puts (store st1) @ [(req st1, v1)]\<rparr>\<rparr>;
                     (r, st3) = forward_onComplete st2 trailers
                 in Inr (r, settle result st3)
               else Inr (forward_onComplete st1 trailers)))"

definition onError :: "state \<Rightarrow> string \<Rightarrow> error + ret \<times> state" where
  "onError st err =
     (let st1 = st\<lparr>value' := None\<rparr> in
      if has_onError (handler st1) then Inr (None, snd (invoke st1 (OnError err)))
      else Inr (None, st1))"

text \<open>The transport's four events, and the method each one calls.\<close>

datatype event =
    Headers int "string list" resume "string option" "headers option"
  | Data string
  | Complete "string list option"
  | Failure string

fun dispatch :: "env \<Rightarrow> int \<Rightarrow> int \<Rightarrow> state \<Rightarrow> event \<Rightarrow> error + ret \<times> state" where
  "dispatch E now dateNow st (Headers code raw resume message hdrs) =
     onHeaders E now dateNow st code raw resume message hdrs"
| "dispatch E now dateNow st (Data chunk) = onData st chunk"
| "dispatch E now dateNow st (Complete trailers) = onComplete st trailers"
| "dispatch E now dateNow st (Failure err) = onError st err"

section \<open>The properties, in the spec's words\<close>

text \<open>
  \<open>currentSize\<close>: the sum of the raw header byte lengths, the length of the status message
  and a fixed overhead of 64.
\<close>

definition currentSize :: "string list \<Rightarrow> string option \<Rightarrow> number" where
  "currentSize raw message =
     add (add (Fin (of_nat (sum_list (map length raw)))) (length_or_0 message)) (Fin 64)"

text \<open>
  The checks in front of the directive rules: both headers are present (and not empty),
  \<open>Content-Length\<close> converts to an integer, neither it nor the current size exceeds the
  store's \<open>maxEntrySize\<close>, and \<open>entryCount\<close> is not at or above \<open>maxEntries\<close>.
\<close>

definition admissible :: "env \<Rightarrow> state \<Rightarrow> string list \<Rightarrow> string option \<Rightarrow> headers \<Rightarrow> bool" where
  "admissible E st raw message headers =
     (truthy (property headers ''cache-control'') \<and>
      truthy (property headers ''content-length'') \<and>
      isInteger (Number E (property headers ''content-length'')) \<and>
      \<not> gt (Number E (property headers ''content-length'')) (getMaxEntrySize st) \<and>
      \<not> gt (currentSize raw message) (getMaxEntrySize st) \<and>
      \<not> ge (entryCount (store st)) (maxEntries (store st)))"

text \<open>
  The call of the wrapped handler that corresponds to an event: the same method with the
  same arguments (an omitted \<open>headers\<close> argument arrives as the parsed headers); whether
  the wrapped handler has that method; and an event handled transparently: the call
  returns, the wrapped handler has received exactly the corresponding call, and its
  return value is the call's.
\<close>

fun forwarded :: "env \<Rightarrow> event \<Rightarrow> call" where
  "forwarded E (Headers code raw resume message hdrs) =
     OnHeaders code raw resume message (defaultHeaders E raw hdrs)"
| "forwarded E (Data chunk) = OnData chunk"
| "forwarded E (Complete trailers) = OnComplete trailers"
| "forwarded E (Failure err) = OnError err"

fun implements :: "wrapped \<Rightarrow> event \<Rightarrow> bool" where
  "implements h (Headers code raw resume message hdrs) = has_onHeaders h"
| "implements h (Data chunk) = has_onData h"
| "implements h (Complete trailers) = has_onComplete h"
| "implements h (Failure err) = has_onError h"

definition transparent :: "env \<Rightarrow> int \<Rightarrow> int \<Rightarrow> state \<Rightarrow> event \<Rightarrow> bool" where
  "transparent E now dateNow st ev =
     (case dispatch E now dateNow st ev of
        Inl e \<Rightarrow> False
      | Inr (r, st1) \<Rightarrow>
          calls st1 = calls st @ [forwarded E ev] \<and>
          r = returns (handler st) (calls st) (forwarded E ev))"

text \<open>
  The \<open>onError\<close> calls that the rejected promises among a list of \<open>put\<close> calls lead to.
\<close>

fun rejections :: "(request \<Rightarrow> entry \<Rightarrow> put_outcome) \<Rightarrow> (request \<times> entry) list \<Rightarrow> call list" where
  "rejections f [] = []"
| "rejections f ((k, v) # kvs) =
     (case f k v of Promise (Some err) \<Rightarrow> [OnError err] | _ \<Rightarrow> []) @ rejections f kvs"

text \<open>The three timestamps of an entry, and the growth of its size over a run of chunks.\<close>

definition timestamps :: "entry \<Rightarrow> number \<times> number \<times> number" where
  "timestamps e = (cachedAt e, staleAt e, deleteAt e)"


fun grow :: "number \<Rightarrow> string list \<Rightarrow> number" where
  "grow n [] = n"
| "grow n (chunk # chunks) = grow (add n (Fin (of_nat (length chunk)))) chunks"



section \<open>A concrete environment\<close>

text \<open>
  One implementation of the environment, for evaluating the handler on concrete
  responses. \<open>Number_decimal\<close> is \<open>Number\<close> on \<open>undefined\<close>, on the empty string and on
  optionally signed runs of decimal digits, and on arrays of such strings (an array is
  converted through its elements joined by commas); every other string is answered
  \<open>NaN\<close>, which is what \<open>Number\<close> does unless the string is another numeric literal
  (surrounding white space, a fraction, an exponent, a radix prefix, \<open>Infinity\<close>); none
  of those occurs below.
\<close>

fun decimalValue :: "int \<Rightarrow> string \<Rightarrow> int option" where
  "decimalValue a [] = Some a"
| "decimalValue a (c # cs) =
     (if firstIndex c ''0123456789'' = - 1 then None
      else decimalValue (10 * a + firstIndex c ''0123456789'') cs)"

fun signedDecimal :: "string \<Rightarrow> int option" where
  "signedDecimal [] = None"
| "signedDecimal (c # cs) =
     (if c = CHR ''-'' then (if cs = [] then None else map_option uminus (decimalValue 0 cs))
      else if c = CHR ''+'' then (if cs = [] then None else decimalValue 0 cs)
      else decimalValue 0 (c # cs))"

definition stringToNumber :: "string \<Rightarrow> number" where
  "stringToNumber s =
     (if s = [] then Fin 0
      else case signedDecimal s of None \<Rightarrow> NaN | Some n \<Rightarrow> Fin (of_int n))"

fun Number_decimal :: "jsval \<Rightarrow> number" where
  "Number_decimal Undefined = NaN"
| "Number_decimal (Str s) = stringToNumber s"
| "Number_decimal (Arr xs) =
     (case xs of [] \<Rightarrow> Fin 0 | [s] \<Rightarrow> stringToNumber s | _ \<Rightarrow> NaN)"

text \<open>
  \<open>new Date(v).getTime()\<close> for the one date string used below and for values that are
  no date at all; and a list of property names that an array inherits from
  \<open>Array.prototype\<close> and \<open>Object.prototype\<close>.
\<close>

definition getTime_epoch :: "jsval \<Rightarrow> number" where
  "getTime_epoch v = (if v = Str ''Thu, 01 Jan 1970 00:00:00 GMT'' then Fin 0 else NaN)"

definition inherited_names :: "string \<Rightarrow> bool" where
  "inherited_names name =
     (name \<in> set [''constructor'', ''at'', ''concat'', ''copyWithin'', ''entries'', ''every'',
        ''fill'', ''filter'', ''find'', ''findIndex'', ''findLast'', ''findLastIndex'',
        ''flat'', ''flatMap'', ''forEach'', ''includes'', ''indexOf'', ''join'', ''keys'',
        ''lastIndexOf'', ''map'', ''pop'', ''push'', ''reduce'', ''reduceRight'',
        ''reverse'', ''shift'', ''slice'', ''some'', ''sort'', ''splice'',
        ''toLocaleString'', ''toString'', ''unshift'', ''values'', ''hasOwnProperty'',
        ''isPrototypeOf'', ''propertyIsEnumerable'', ''valueOf'', ''__proto__'',
        ''with'', ''toReversed'', ''toSorted'', ''toSpliced'', ''__defineGetter__'',
        ''__defineSetter__'', ''__lookupGetter__'', ''__lookupSetter__''])"

text \<open>
  Modelled from the spec: \<open>util.parseHeaders\<close> of \<open>lib/core/util.js\<close> is not among the
  sources. The spec describes it as splitting the flat, alternating name and value list
  into a mapping from name to value; names are lower-cased, as the handler's reads of
  \<open>headers['cache-control']\<close> expect, and a repeated name collects its values in an
  array, as the type \<open>Record<string, string | string[]>\<close> says.
\<close>

definition toLowerCase :: "string \<Rightarrow> string" where
  "toLowerCase s =
     map (\<lambda>c. case map_of (zip ''ABCDEFGHIJKLMNOPQRSTUVWXYZ'' ''abcdefghijklmnopqrstuvwxyz'') c of
                 None \<Rightarrow> c | Some l \<Rightarrow> l) s"

definition trim :: "string \<Rightarrow> string" where
  "trim s = rev (dropWhile (\<lambda>c. c = CHR '' '') (rev (dropWhile (\<lambda>c. c = CHR '' '') s)))"

fun insertHeader :: "string \<Rightarrow> string \<Rightarrow> headers \<Rightarrow> headers" where
  "insertHeader k v [] = [(k, Str v)]"
| "insertHeader k v ((k', w) # h) =
     (if k = k' then
        (k', (case w of Str a \<Rightarrow> Arr [a, v] | Arr xs \<Rightarrow> Arr (xs @ [v]) | Undefined \<Rightarrow> Str v)) # h
      else (k', w) # insertHeader k v h)"

fun parseHeaders_pairs :: "string list \<Rightarrow> headers \<Rightarrow> headers" where
  "parseHeaders_pairs (k # v # rest) h = parseHeaders_pairs rest (insertHeader (toLowerCase k) v h)"
| "parseHeaders_pairs rest h = h"

text \<open>
  Modelled from the spec: \<open>parseCacheControlHeader\<close> of \<open>lib/util/cache.js\<close> is not among
  the sources. Following section 4.1 of the spec, the value is a comma-separated list of
  directives (commas inside a quoted argument do not separate); each token is lower-cased;
  \<open>max-age\<close>, \<open>s-maxage\<close> and \<open>stale-while-revalidate\<close> take an integer count of
  seconds; \<open>no-cache\<close> and \<open>private\<close> are \<open>true\<close> without an argument and otherwise the
  list of names in their quoted, comma-separated argument; the other recognised
  directives are \<open>true\<close> when present; unknown tokens are ignored.
\<close>

fun splitOutsideQuotes :: "bool \<Rightarrow> string \<Rightarrow> string \<Rightarrow> string list" where
  "splitOutsideQuotes q cur [] = [rev cur]"
| "splitOutsideQuotes q cur (c # cs) =
     (if c = CHR 0x22 then splitOutsideQuotes (\<not> q) (c # cur) cs
      else if c = CHR '','' \<and> \<not> q then rev cur # splitOutsideQuotes False [] cs
      else splitOutsideQuotes q (c # cur) cs)"

definition unquote :: "string \<Rightarrow> string" where
  "unquote s = filter (\<lambda>c. c \<noteq> CHR 0x22) s"

definition emptyDirectives :: directives where
  "emptyDirectives =
     \<lparr>public = False, s_maxage = None, must_revalidate = False, private' = Missing,
      no_cache = Missing, no_store = False, no_transform = False, must_understand = False,
      proxy_revalidate = False, immutable = False, max_age = None,
      stale_while_revalidate = None\<rparr>"

definition headerNames :: "string \<Rightarrow> string list" where
  "headerNames s = map (\<lambda>n. toLowerCase (trim n)) (splitOutsideQuotes False [] (unquote s))"

definition setDirective :: "string \<Rightarrow> string option \<Rightarrow> directives \<Rightarrow> directives" where
  "setDirective name arg d =
     (if name = ''max-age'' then
        (case Option.bind arg signedDecimal of None \<Rightarrow> d | Some n \<Rightarrow> d\<lparr>max_age := Some n\<rparr>)
      else if name = ''s-maxage'' then
        (case Option.bind arg signedDecimal of None \<Rightarrow> d | Some n \<Rightarrow> d\<lparr>s_maxage := Some n\<rparr>)
      else if name = ''stale-while-revalidate'' then
        (case Option.bind arg signedDecimal of None \<Rightarrow> d
         | Some n \<Rightarrow> d\<lparr>stale_while_revalidate := Some n\<rparr>)
      else if name = ''no-cache'' then
        d\<lparr>no_cache := (case arg of None \<Rightarrow> Unqualified | Some a \<Rightarrow> Qualified (headerNames a))\<rparr>
      else if name = ''private'' then
        d\<lparr>private' := (case arg of None \<Rightarrow> Unqualified | Some a \<Rightarrow> Qualified (headerNames a))\<rparr>
      else if name = ''public'' then d\<lparr>public := True\<rparr>
      else if name = ''must-revalidate'' then d\<lparr>must_revalidate := True\<rparr>
      else if name = ''no-store'' then d\<lparr>no_store := True\<rparr>
      else if name = ''no-transform'' then d\<lparr>no_transform := True\<rparr>
      else if name = ''must-understand'' then d\<lparr>must_understand := True\<rparr>
      else if name = ''proxy-revalidate'' then d\<lparr>proxy_revalidate := True\<rparr>
      else if name = ''immutable'' then d\<lparr>immutable := True\<rparr>
      else d)"

definition parseDirective :: "string \<Rightarrow> directives \<Rightarrow> directives" where
  "parseDirective token d =
     (let name = toLowerCase (trim (takeWhile (\<lambda>c. c \<noteq> CHR ''='') token));
          rest = dropWhile (\<lambda>c. c \<noteq> CHR ''='') token
      in setDirective name (if rest = [] then None else Some (trim (tl rest))) d)"

fun parseCacheControl_spec :: "jsval \<Rightarrow> directives" where
  "parseCacheControl_spec (Str s) = fold parseDirective (splitOutsideQuotes False [] s) emptyDirectives"
| "parseCacheControl_spec (Arr xs) =
     fold parseDirective (concat (map (splitOutsideQuotes False []) xs)) emptyDirectives"
| "parseCacheControl_spec Undefined = emptyDirectives"

text \<open>
  Modelled from the spec: \<open>parseVaryHeader\<close> of \<open>lib/util/cache.js\<close> is not among the
  sources. Following sections 4.1 and 4.2 of the spec, it pairs each header name listed in
  the \<open>Vary\<close> value (trimmed, lower-cased) with that header's value in the original
  request.
\<close>

fun parseVary_spec :: "jsval \<Rightarrow> headers \<Rightarrow> headers" where
  "parseVary_spec (Str s) reqHeaders = map (\<lambda>n. (n, property reqHeaders n)) (headerNames s)"
| "parseVary_spec (Arr xs) reqHeaders =
     map (\<lambda>n. (n, property reqHeaders n)) (concat (map headerNames xs))"
| "parseVary_spec Undefined reqHeaders = []"

definition node :: env where
  "node = \<lparr>Number = Number_decimal, getTime = getTime_epoch, inherited = inherited_names,
            parseHeaders = (\<lambda>raw. parseHeaders_pairs raw []),
            parseCacheControlHeader = parseCacheControl_spec,
            parseVaryHeader = parseVary_spec\<rparr>"

section \<open>A whole response\<close>

text \<open>
  The provisional entry a call leaves behind (none when the call throws) and the calls
  the wrapped handler has received after it; the body chunks of a response fed to
  \<open>onData\<close> in order; one response as the transport delivers it: headers, then the
  chunks, then completion; and the \<open>put\<close> calls the store has received at the end of it.
\<close>

definition entry_after :: "error + ret \<times> state \<Rightarrow> entry option" where
  "entry_after result = (case result of Inl e \<Rightarrow> None | Inr (r, st) \<Rightarrow> value' st)"

definition calls_after :: "error + ret \<times> state \<Rightarrow> call list" where
  "calls_after result = (case result of Inl e \<Rightarrow> [] | Inr (r, st) \<Rightarrow> calls st)"

fun feed :: "state \<Rightarrow> string list \<Rightarrow> error + ret list \<times> state" where
  "feed st [] = Inr ([], st)"
| "feed st (chunk # chunks) =
     (case onData st chunk of
        Inl e \<Rightarrow> Inl e
      | Inr (r, st1) \<Rightarrow>
          (case feed st1 chunks of Inl e \<Rightarrow> Inl e | Inr (rs, st2) \<Rightarrow> Inr (r # rs, st2)))"

definition exchange ::
  "env \<Rightarrow> int \<Rightarrow> int \<Rightarrow> state \<Rightarrow> int \<Rightarrow> string list \<Rightarrow> resume \<Rightarrow> string option \<Rightarrow> headers option
     \<Rightarrow> string list \<Rightarrow> string list option \<Rightarrow> error + state" where
  "exchange E now dateNow st code raw resume message hdrs chunks trailers =
     (case onHeaders E now dateNow st code raw resume message hdrs of
        Inl e \<Rightarrow> Inl e
      | Inr (r, st1) \<Rightarrow>
          (case feed st1 chunks of
             Inl e \<Rightarrow> Inl e
           | Inr (rs, st2) \<Rightarrow>
               (case onComplete st2 trailers of Inl e \<Rightarrow> Inl e | Inr (r', st3) \<Rightarrow> Inr st3)))"

text \<open>
  Modelled from the spec: the reference in-memory store is not among the sources. Its
  type declaration gives \<open>maxEntries\<close> and \<open>maxEntrySize\<close> the default \<open>Infinity\<close>; its
  \<open>put\<close> is synchronous. \<open>recorder\<close> is a wrapped handler with all four methods, and
  \<open>getRoot\<close> the request of the store's tests.
\<close>

definition committed :: "error + state \<Rightarrow> (request \<times> entry) list" where
  "committed result = (case result of Inl e \<Rightarrow> [] | Inr st \<Rightarrow> puts (store st))"

definition unboundedStore :: store where
  "unboundedStore =
     \<lparr>entryCount = Fin 0, maxEntries = PInf, maxEntrySize = Some PInf,
      put_result = (\<lambda>key v. Void), puts = []\<rparr>"

definition recorder :: wrapped where
  "recorder =
     \<lparr>has_onHeaders = True, has_onData = True, has_onComplete = True, has_onError = True,
      returns = (\<lambda>seen c. Some True)\<rparr>"

definition getRoot :: request where
  "getRoot = \<lparr>origin = ''localhost'', path = ''/'', method' = ''GET'', req_headers = []\<rparr>"

definition start :: state where
  "start = \<lparr>store = unboundedStore, req = getRoot, handler = recorder, value' = None, calls = []\<rparr>"

text \<open>
  The same checks as the spec words them, with a \<open>Content-Length\<close> that is a non-negative
  integer; directives that exempt \<open>authorization\<close> by naming it in the \<open>no-cache\<close> or
  the \<open>private\<close> list; a header record without one header; and a handler whose request
  carries an \<open>Authorization\<close> header.
\<close>

definition eligible :: "env \<Rightarrow> state \<Rightarrow> string list \<Rightarrow> string option \<Rightarrow> headers \<Rightarrow> bool" where
  "eligible E st raw message headers =
     (admissible E st raw message headers \<and>
      ge (Number E (property headers ''content-length'')) (Fin 0))"

definition exempts :: "directives \<Rightarrow> bool" where
  "exempts d =
     (isArrayIncluding (no_cache d) ''authorization'' \<or>
      isArrayIncluding (private' d) ''authorization'')"

definition without :: "string \<Rightarrow> headers \<Rightarrow> headers" where
  "without name h = filter (\<lambda>kv. fst kv \<noteq> name) h"

definition authorized :: state where
  "authorized =
     start\<lparr>req := getRoot\<lparr>req_headers := [(''authorization'', Str ''Bearer token'')]\<rparr>\<rparr>"

text \<open>
  Some chunk of a run pushes the size, which starts at \<open>n\<close>, strictly above \<open>m\<close>; and
  what the wrapped handler returns for a run of calls, each one answered in the light of
  the calls before it.
\<close>

definition overflows :: "number \<Rightarrow> number \<Rightarrow> string list \<Rightarrow> bool" where
  "overflows n m chunks = (\<exists>k \<in> set [1..<Suc (length chunks)]. gt (grow n (take k chunks)) m)"

fun replies :: "wrapped \<Rightarrow> call list \<Rightarrow> call list \<Rightarrow> ret list" where
  "replies h seen [] = []"
| "replies h seen (c # cs) = returns h seen c # replies h (seen @ [c]) cs"

text \<open>
  The entry that \<open>onHeaders\<close> builds at time 1000 for a 200 response with the raw headers
  \<open>cache-control: public, max-age=10\<close> and \<open>content-length: 3\<close> and the status message
  \<open>OK\<close>; a handler holding it in front of a store whose \<open>maxEntrySize\<close> is 120; and one in
  front of a store whose \<open>put\<close> returns a promise that is rejected.
\<close>

definition pending :: entry where
  "pending =
     \<lparr>complete' = False, statusCode = 200, statusMessage = Some ''OK'',
      rawHeaders = [Some ''cache-control'', Some ''public, max-age=10'',
                    Some ''content-length'', Some ''3''],
      rawTrailers = None, body = [], vary = None, size' = Fin 112,
      cachedAt = Fin 1000, staleAt = Fin 11000, deleteAt = Fin 11000\<rparr>"


definition rejecting :: state where
  "rejecting =
     start\<lparr>store := unboundedStore\<lparr>put_result := (\<lambda>key v. Promise (Some ''disk full''))\<rparr>,
           value' := Some pending\<rparr>"

section \<open>Properties of the event methods\<close>

lemma onHeaders_frame:
  assumes "onHeaders E now dateNow st code raw resume message hdrs = Inr (r, st1)"
  shows "store st1 = store st \<and> req st1 = req st \<and> handler st1 = handler st"
  using assms
  by (auto simp: onHeaders_def Let_def call_onHeaders_def forward_onHeaders_def invoke_def
      split: if_splits option.splits sum.splits)

lemma onHeaders_value:
  assumes "onHeaders E now dateNow st code raw resume message hdrs = Inr (r, st1)"
    and "value' st1 \<noteq> value' st"
  shows "\<exists>w stripped.
           admissible E st raw message (defaultHeaders E raw hdrs) \<and>
           canCacheResponse code (defaultHeaders E raw hdrs)
             (parseCacheControlHeader E (property (defaultHeaders E raw hdrs) ''cache-control'')) \<and>
           determineStaleAt E dateNow (defaultHeaders E raw hdrs)
             (parseCacheControlHeader E (property (defaultHeaders E raw hdrs) ''cache-control'')) = Some w \<and>
           truthy_number w \<and>
           stripNecessaryHeaders E raw (defaultHeaders E raw hdrs)
             (parseCacheControlHeader E (property (defaultHeaders E raw hdrs) ''cache-control'')) = Inr stripped \<and>
           value' st1 = Some
             \<lparr>complete' = False, statusCode = code, statusMessage = message,
              rawHeaders = stripped, rawTrailers = None, body = [],
              vary = (if truthy (property (defaultHeaders E raw hdrs) ''vary'')
                      then Some (parseVaryHeader E (property (defaultHeaders E raw hdrs) ''vary'')
                                   (req_headers (req st)))
                      else None),
              size' = currentSize raw message,
              cachedAt = Fin (of_int now),
              staleAt = add (Fin (of_int now)) w,
              deleteAt = add (Fin (of_int now))
                (determineDeleteAt
                  (parseCacheControlHeader E (property (defaultHeaders E raw hdrs) ''cache-control'')) w)\<rparr>"
  using assms
  by (auto simp: onHeaders_def Let_def call_onHeaders_def forward_onHeaders_def invoke_def
        admissible_def currentSize_def
      split: if_splits option.splits sum.splits)

lemma onData_frame:
  assumes "onData st chunk = Inr (r, st1)"
  shows "store st1 = store st \<and> req st1 = req st \<and> handler st1 = handler st"
  using assms
  by (auto simp: onData_def Let_def invoke_def split: if_splits option.splits)

lemma onData_absent:
  assumes "onData st chunk = Inr (r, st1)" and "value' st = None"
  shows "value' st1 = None"
  using assms
  by (auto simp: onData_def Let_def invoke_def split: if_splits)

lemma feed_frame:
  "feed st chunks = Inr (rs, st1) \<Longrightarrow>
     store st1 = store st \<and> req st1 = req st \<and> handler st1 = handler st"
proof (induction chunks arbitrary: st rs)
  case Nil
  then show ?case by simp
next
  case (Cons chunk chunks)
  from Cons.prems obtain r st2 rs2 where
    d: "onData st chunk = Inr (r, st2)" and f: "feed st2 chunks = Inr (rs2, st1)"
    by (auto split: sum.splits)
  from Cons.IH [OF f] onData_frame [OF d] show ?case by simp
qed

lemma feed_absent:
  "feed st chunks = Inr (rs, st1) \<Longrightarrow> value' st = None \<Longrightarrow> value' st1 = None"
proof (induction chunks arbitrary: st rs)
  case Nil
  then show ?case by simp
next
  case (Cons chunk chunks)
  from Cons.prems obtain r st2 rs2 where
    d: "onData st chunk = Inr (r, st2)" and f: "feed st2 chunks = Inr (rs2, st1)"
    by (auto split: sum.splits)
  from onData_absent [OF d] Cons.prems have "value' st2 = None" by simp
  with Cons.IH [OF f] show ?case by simp
qed

lemma onComplete_absent:
  assumes "onComplete st trailers = Inr (r, st1)" and "value' st = None"
  shows "value' st1 = None \<and> store st1 = store st"
  using assms
  by (auto simp: onComplete_def forward_onComplete_def invoke_def split: if_splits)

lemma exchange_without_entry:
  assumes ex: "exchange E now dateNow st code raw resume message hdrs chunks trailers = Inr st3"
    and keep: "\<And>r st1. onHeaders E now dateNow st code raw resume message hdrs = Inr (r, st1)
                 \<Longrightarrow> value' st1 = None"
  shows "puts (store st3) = puts (store st) \<and> value' st3 = None"
proof -
  from ex obtain r st1 rs st2 r3 where
    h: "onHeaders E now dateNow st code raw resume message hdrs = Inr (r, st1)"
    and f: "feed st1 chunks = Inr (rs, st2)"
    and c: "onComplete st2 trailers = Inr (r3, st3)"
    by (auto simp: exchange_def split: sum.splits)
  from keep [OF h] have "value' st1 = None" .
  with feed_absent [OF f] have "value' st2 = None" by simp
  with onComplete_absent [OF c] onHeaders_frame [OF h] feed_frame [OF f]
  show ?thesis by simp
qed


lemma returned: "\<not> isl x \<Longrightarrow> \<exists>y. x = Inr y"
  by (cases x) auto

lemma onHeaders_inadmissible:
  assumes "\<not> admissible E st raw message (defaultHeaders E raw hdrs)"
  shows "onHeaders E now dateNow st code raw resume message hdrs =
           call_onHeaders st (OnHeaders code raw resume message (defaultHeaders E raw hdrs))"
  using assms
  by (auto simp: onHeaders_def Let_def admissible_def currentSize_def)

lemma property_without:
  "property (without name h) k = (if k = name then Undefined else property h k)"
  by (induction h) (auto simp: without_def property_def)

lemma onHeaders_rejected:
  assumes "\<not> canCacheResponse code (defaultHeaders E raw hdrs)
              (parseCacheControlHeader E (property (defaultHeaders E raw hdrs) ''cache-control''))"
    and "onHeaders E now dateNow st code raw resume message hdrs = Inr (r, st1)"
  shows "value' st1 = value' st"
  using onHeaders_value [OF assms(2)] assms(1) by blast

lemma entry_after_request:
  "(entry_after (onHeaders E now dateNow (st\<lparr>req := q\<rparr>) code raw resume message hdrs) = None) =
   (entry_after (onHeaders E now dateNow st code raw resume message hdrs) = None)"
  by (auto simp: entry_after_def onHeaders_def Let_def call_onHeaders_def forward_onHeaders_def
        invoke_def getMaxEntrySize_def
      split: if_splits option.splits sum.splits)

lemma onData_effect:
  "onData st chunk =
     Inr (if has_onData (handler st) then returns (handler st) (calls st) (OnData chunk) else None,
          st\<lparr>value' :=
                (case value' st of
                   None \<Rightarrow> None
                 | Some e \<Rightarrow>
                     if gt (add (size' e) (Fin (of_nat (length chunk)))) (getMaxEntrySize st) then None
                     else Some (e\<lparr>size' := add (size' e) (Fin (of_nat (length chunk))),
                                  body := body e @ [chunk]\<rparr>)),
              calls := calls st @ (if has_onData (handler st) then [OnData chunk] else [])\<rparr>)"
  by (cases st) (auto simp: onData_def Let_def invoke_def getMaxEntrySize_def split: option.splits)

lemma overflows_Nil: "overflows n m [] = False"
  by (simp add: overflows_def)

lemma overflows_Cons:
  "overflows n m (chunk # chunks) =
     (gt (add n (Fin (of_nat (length chunk)))) m \<or>
      overflows (add n (Fin (of_nat (length chunk)))) m chunks)"
proof -
  let ?n = "add n (Fin (of_nat (length chunk)))"
  have "(\<exists>k\<in>{1..<Suc (Suc (length chunks))}. gt (grow n (take k (chunk # chunks))) m) =
        (gt ?n m \<or> (\<exists>k\<in>{1..<Suc (length chunks)}. gt (grow ?n (take k chunks)) m))"
    (is "?L = ?R")
  proof
    assume ?L
    then obtain k where k: "1 \<le> k" "k < Suc (Suc (length chunks))"
      and g: "gt (grow n (take k (chunk # chunks))) m" by auto
    show ?R
    proof (cases "k = 1")
      case True
      with g show ?thesis by simp
    next
      case False
      with k obtain j where j: "k = Suc j" "1 \<le> j" "j < Suc (length chunks)"
        by (cases k) auto
      with g have "gt (grow ?n (take j chunks)) m" by simp
      with j show ?thesis by auto
    qed
  next
    assume ?R
    then show ?L
    proof
      assume "gt ?n m"
      then have "gt (grow n (take 1 (chunk # chunks))) m" by simp
      then show ?L by (intro bexI [of _ 1]) auto
    next
      assume "\<exists>k\<in>{1..<Suc (length chunks)}. gt (grow ?n (take k chunks)) m"
      then obtain j where j: "1 \<le> j" "j < Suc (length chunks)"
        and g: "gt (grow ?n (take j chunks)) m" by auto
      then have "gt (grow n (take (Suc j) (chunk # chunks))) m" by simp
      with j show ?L by (intro bexI [of _ "Suc j"]) auto
    qed
  qed
  then show ?thesis by (simp only: overflows_def set_upt length_Cons)
qed

lemma feed_effect:
  "feed st chunks =
     Inr (if has_onData (handler st) then replies (handler st) (calls st) (map OnData chunks)
          else map (\<lambda>c. None) chunks,
          st\<lparr>value' :=
                (case value' st of
                   None \<Rightarrow> None
                 | Some e \<Rightarrow>
                     if overflows (size' e) (getMaxEntrySize st) chunks then None
                     else Some (e\<lparr>size' := grow (size' e) chunks, body := body e @ chunks\<rparr>)),
              calls := calls st @ (if has_onData (handler st) then map OnData chunks else [])\<rparr>)"
proof (induction chunks arbitrary: st)
  case Nil
  show ?case by (cases st) (auto simp: overflows_Nil split: option.splits)
next
  case (Cons chunk chunks)
  show ?case
    by (cases st)
      (auto simp: onData_effect Cons.IH overflows_Cons overflows_Nil getMaxEntrySize_def
         split: option.splits)
qed

lemma onComplete_without_entry:
  "value' st = None \<Longrightarrow> onComplete st trailers = Inr (forward_onComplete st trailers)"
  by (simp add: onComplete_def)


lemma onHeaders_calls:
  assumes "onHeaders E now dateNow st code raw resume message hdrs = Inr (r, st1)"
  shows "calls st1 = calls st @
           (if has_onHeaders (handler st)
            then [OnHeaders code raw resume message (defaultHeaders E raw hdrs)] else []) \<and>
         r = (if has_onHeaders (handler st)
              then returns (handler st) (calls st)
                     (OnHeaders code raw resume message (defaultHeaders E raw hdrs))
              else None)"
  using assms
  by (auto simp: onHeaders_def Let_def call_onHeaders_def forward_onHeaders_def invoke_def
      split: if_splits option.splits sum.splits)

lemma onComplete_calls:
  assumes "onComplete st trailers = Inr (r, st1)"
  shows "calls st1 = calls st @
           (if has_onComplete (handler st) then [OnComplete trailers] else []) @
           (if has_onError (handler st)
            then rejections (put_result (store st))
                   (drop (length (puts (store st))) (puts (store st1)))
            else []) \<and>
         r = (if has_onComplete (handler st)
              then returns (handler st) (calls st) (OnComplete trailers) else None)"
  using assms
  by (auto simp: onComplete_def Let_def forward_onComplete_def settle_def invoke_def
      split: if_splits option.splits sum.splits put_outcome.splits prod.splits)

lemma onError_effect:
  "onError st err =
     Inr (None, st\<lparr>value' := None,
                   calls := calls st @ (if has_onError (handler st) then [OnError err] else [])\<rparr>)"
  by (cases st) (auto simp: onError_def Let_def invoke_def)





lemma strip_without_length:
  assumes "\<not> lt (Fin 0) (Number E (property parsedHeaders ''length''))"
  shows "stripNecessaryHeaders E raw parsedHeaders d = Inr (map Some raw)"
  using assms
  by (simp add: stripNecessaryHeaders_def Let_def strip_loop.simps)

lemma onHeaders_builds:
  assumes "admissible E st raw message (defaultHeaders E raw hdrs)"
    and "canCacheResponse code (defaultHeaders E raw hdrs)
           (parseCacheControlHeader E (property (defaultHeaders E raw hdrs) ''cache-control''))"
    and "determineStaleAt E dateNow (defaultHeaders E raw hdrs)
           (parseCacheControlHeader E (property (defaultHeaders E raw hdrs) ''cache-control'')) = Some w"
    and "truthy_number w"
    and "stripNecessaryHeaders E raw (defaultHeaders E raw hdrs)
           (parseCacheControlHeader E (property (defaultHeaders E raw hdrs) ''cache-control'')) = Inr stripped"
  shows "onHeaders E now dateNow st code raw resume message hdrs =
           forward_onHeaders
             (st\<lparr>value' := Some
                \<lparr>complete' = False, statusCode = code, statusMessage = message,
                 rawHeaders = stripped, rawTrailers = None, body = [],
                 vary = (if truthy (property (defaultHeaders E raw hdrs) ''vary'')
                         then Some (parseVaryHeader E (property (defaultHeaders E raw hdrs) ''vary'')
                                      (req_headers (req st)))
                         else None),
                 size' = currentSize raw message,
                 cachedAt = Fin (of_int now),
                 staleAt = add (Fin (of_int now)) w,
                 deleteAt = add (Fin (of_int now))
                   (determineDeleteAt
                     (parseCacheControlHeader E (property (defaultHeaders E raw hdrs) ''cache-control''))
                     w)\<rparr>\<rparr>)
             (OnHeaders code raw resume message (defaultHeaders E raw hdrs))"
  using assms
  by (simp add: onHeaders_def Let_def admissible_def currentSize_def)

lemma currentSize_Fin: "\<exists>c. currentSize raw message = Fin c \<and> 64 \<le> c"
  by (cases message) (auto simp: currentSize_def)

lemma exchange_inadmissible:
  assumes na: "\<not> admissible E st raw message (defaultHeaders E raw hdrs)"
    and fresh: "value' st = None"
  shows "(\<forall>st3. exchange E now dateNow st code raw resume message hdrs chunks trailers = Inr st3 \<longrightarrow>
            puts (store st3) = puts (store st) \<and> value' st3 = None) \<and>
         (has_onHeaders (handler st) \<longrightarrow>
            (\<exists>st3. exchange E now dateNow st code raw resume message hdrs chunks trailers = Inr st3))"
proof (intro conjI allI impI)
  fix st3
  assume ex: "exchange E now dateNow st code raw resume message hdrs chunks trailers = Inr st3"
  have keep: "value' st1 = None"
    if "onHeaders E now dateNow st code raw resume message hdrs = Inr (r, st1)" for r st1
    using that fresh onHeaders_inadmissible [OF na, of now dateNow code resume]
    by (auto simp: call_onHeaders_def invoke_def split: if_splits)
  from exchange_without_entry [OF ex keep]
  show "puts (store st3) = puts (store st)" and "value' st3 = None" by simp_all
next
  assume "has_onHeaders (handler st)"
  with fresh onHeaders_inadmissible [OF na, of now dateNow code resume]
  show "\<exists>st3. exchange E now dateNow st code raw resume message hdrs chunks trailers = Inr st3"
    by (simp add: exchange_def call_onHeaders_def invoke_def feed_effect onComplete_without_entry
        split: prod.splits)
qed

section \<open>The properties of the specification\<close>

text \<open>
  C1 (as amended). \<open>canCacheResponse\<close> looks for \<open>authorization\<close> among the headers of
  the response, not of the request: whether a call of \<open>onHeaders\<close> leaves an entry does
  not depend on the request at all. When the response's headers hold a non-empty
  \<open>authorization\<close> and the \<open>no-cache\<close> or the \<open>private\<close> name list contains
  \<open>authorization\<close>, the response is rejected and the call leaves the provisional entry
  as it was; in every other case the decision is the one taken without the
  \<open>authorization\<close> header.
\<close>

theorem authorization_named_rejects:
  "canCacheResponse code h d =
     (canCacheResponse code (without ''authorization'' h) d \<and>
      \<not> (truthy (property h ''authorization'') \<and> exempts d)) \<and>
   (truthy (property (defaultHeaders E raw hdrs) ''authorization'') \<and>
    exempts (parseCacheControlHeader E (property (defaultHeaders E raw hdrs) ''cache-control'')) \<longrightarrow>
      (\<forall>r st1. onHeaders E now dateNow st code raw resume message hdrs = Inr (r, st1) \<longrightarrow>
         value' st1 = value' st)) \<and>
   (entry_after (onHeaders E now dateNow (st\<lparr>req := q\<rparr>) code raw resume message hdrs) = None) =
   (entry_after (onHeaders E now dateNow st code raw resume message hdrs) = None)"
proof (intro conjI impI allI)
  show "canCacheResponse code h d =
     (canCacheResponse code (without ''authorization'' h) d \<and>
      \<not> (truthy (property h ''authorization'') \<and> exempts d))"
    by (auto simp: canCacheResponse_def property_without exempts_def)
next
  fix r st1
  let ?h = "defaultHeaders E raw hdrs"
  let ?d = "parseCacheControlHeader E (property ?h ''cache-control'')"
  assume "truthy (property ?h ''authorization'') \<and> exempts ?d"
    and ret: "onHeaders E now dateNow st code raw resume message hdrs = Inr (r, st1)"
  then have "\<not> canCacheResponse code ?h ?d"
    by (auto simp: canCacheResponse_def exempts_def)
  from onHeaders_rejected [OF this ret] show "value' st1 = value' st" .
next
  show "(entry_after (onHeaders E now dateNow (st\<lparr>req := q\<rparr>) code raw resume message hdrs) = None) =
        (entry_after (onHeaders E now dateNow st code raw resume message hdrs) = None)"
    by (rule entry_after_request)
qed

theorem authorization_named_rejects_witness:
  "\<not> canCacheResponse 200
       [(''cache-control'', Str ''public, max-age=10, no-cache=\"authorization\"''),
        (''content-length'', Str ''3''), (''authorization'', Str ''Bearer token'')]
       (parseCacheControlHeader node (Str ''public, max-age=10, no-cache=\"authorization\"'')) \<and>
   entry_after (onHeaders node 1000 1000 start 200 []  0 (Some ''OK'')
       (Some [(''cache-control'', Str ''public, max-age=10, no-cache=\"authorization\"''),
              (''content-length'', Str ''3''), (''authorization'', Str ''Bearer token'')])) = None \<and>
   entry_after (onHeaders node 1000 1000 authorized 200
       [''cache-control'', ''public, max-age=10'', ''content-length'', ''3''] 0 (Some ''OK'') None)
     \<noteq> None"
proof -
  let ?h = "[(''cache-control'', Str ''public, max-age=10, no-cache=\"authorization\"''),
             (''content-length'', Str ''3''), (''authorization'', Str ''Bearer token'')]"
  let ?d = "parseCacheControlHeader node (Str ''public, max-age=10, no-cache=\"authorization\"'')"
  let ?raw = "[''cache-control'', ''public, max-age=10'', ''content-length'', ''3'']"
  let ?q = "getRoot\<lparr>req_headers := [(''authorization'', Str ''Bearer token'')]\<rparr>"
  note inst = authorization_named_rejects [where E = node and now = 1000 and dateNow = 1000
      and st = start and resume = 0 and message = "Some ''OK''" and q = ?q]
  have named: "truthy (property ?h ''authorization'') \<and> exempts ?d" by code_simp
  with inst [where code = 200 and h = ?h and d = ?d and raw = "[]" and hdrs = None]
  have a: "\<not> canCacheResponse 200 ?h ?d" by blast
  let ?x = "onHeaders node 1000 1000 start 200 [] 0 (Some ''OK'') (Some ?h)"
  have "\<not> isl ?x" by code_simp
  then obtain r st1 where x: "?x = Inr (r, st1)" using returned by fastforce
  have "truthy (property (defaultHeaders node [] (Some ?h)) ''authorization'') \<and>
        exempts (parseCacheControlHeader node (property (defaultHeaders node [] (Some ?h)) ''cache-control''))"
    by code_simp
  with inst [where code = 200 and raw = "[]" and hdrs = "Some ?h" and h = ?h and d = ?d] x
  have "value' st1 = value' start" by blast
  with x have b: "entry_after ?x = None"
    by (simp add: entry_after_def start_def)
  have "entry_after (onHeaders node 1000 1000 start 200 ?raw 0 (Some ''OK'') None) \<noteq> None"
    by code_simp
  with inst [where code = 200 and raw = ?raw and hdrs = None and h = ?h and d = ?d]
  have "entry_after (onHeaders node 1000 1000 (start\<lparr>req := ?q\<rparr>) 200 ?raw 0 (Some ''OK'') None) \<noteq> None"
    by blast
  then have c: "entry_after (onHeaders node 1000 1000 authorized 200 ?raw 0 (Some ''OK'') None) \<noteq> None"
    by (simp add: authorized_def)
  from a b c show ?thesis by simp
qed

theorem request_authorization_counterexample:
  "truthy (property (req_headers (req authorized)) ''authorization'') \<and>
   entry_after (onHeaders node 1000 1000 authorized 200
       [''cache-control'', ''public, max-age=10'', ''content-length'', ''3''] 0 (Some ''OK'') None)
     \<noteq> None \<and>
   \<not> exempts (parseCacheControlHeader node (Str ''public, max-age=10''))"
  by code_simp

text \<open>
  C2 (as amended). A 200 response whose parsed headers are \<open>Cache-Control: public,
  max-age=10\<close> and \<open>Content-Length: 3\<close> and whose body is the single chunk \<open>abc\<close> is
  committed, provided the store has room (\<open>entryCount\<close> is not at or above \<open>maxEntries\<close>,
  and \<open>maxEntrySize\<close> is strictly above the size of headers, body and trailers): the
  store receives one \<open>put\<close> of an entry whose \<open>staleAt\<close> is \<open>cachedAt\<close> plus 10000, whose
  \<open>deleteAt\<close> equals \<open>staleAt\<close> and whose body is \<open>[abc]\<close>.
\<close>

theorem public_max_age_is_committed:
  assumes H: "defaultHeaders E raw hdrs =
                [(''cache-control'', Str ''public, max-age=10''), (''content-length'', Str ''3'')]"
    and P: "parseCacheControlHeader E (Str ''public, max-age=10'') =
              emptyDirectives\<lparr>public := True, max_age := Some 10\<rparr>"
    and N3: "Number E (Str ''3'') = Fin 3"
    and NU: "Number E Undefined = NaN"
    and room: "gt (getMaxEntrySize st)
                 (add (add (currentSize raw message) (Fin 3))
                    (Fin (of_nat (sum_list (map length trailers)))))"
    and count: "\<not> ge (entryCount (store st)) (maxEntries (store st))"
  shows "\<exists>st3 e.
           exchange E now dateNow st 200 raw resume message hdrs [''abc''] (Some trailers) = Inr st3 \<and>
           puts (store st3) = puts (store st) @ [(req st, e)] \<and>
           cachedAt e = Fin (of_int now) \<and>
           staleAt e = add (cachedAt e) (Fin 10000) \<and>
           deleteAt e = staleAt e \<and>
           body e = [''abc'']"
proof -
  let ?h = "defaultHeaders E raw hdrs"
  let ?d = "parseCacheControlHeader E (property ?h ''cache-control'')"
  let ?M = "getMaxEntrySize st"
  obtain c where c: "currentSize raw message = Fin c" "64 \<le> c"
    using currentSize_Fin by blast
  let ?t = "of_nat (sum_list (map length trailers)) :: rat"
  have t: "0 \<le> ?t" by simp
  from room c have M: "?M = PInf \<or> (\<exists>m. ?M = Fin m \<and> c + 3 + ?t < m)"
    by (cases ?M) (auto simp: gt_def)
  have d: "?d = emptyDirectives\<lparr>public := True, max_age := Some 10\<rparr>"
    by (simp add: H P property_def)
  have fits3: "\<not> gt (Fin 3) ?M" and fitsc: "\<not> gt (Fin c) ?M" and fitsb: "\<not> gt (Fin (c + 3)) ?M"
    and commit: "gt ?M (Fin (c + 3 + ?t))"
    using M c t by (auto simp: gt_def)
  have adm: "admissible E st raw message ?h"
    using fits3 fitsc count c
    by (simp add: admissible_def H property_def N3)
  have can: "canCacheResponse 200 ?h ?d"
    by (simp add: d canCacheResponse_def emptyDirectives_def) (simp add: H property_def)
  have w: "determineStaleAt E dateNow ?h ?d = Some (Fin 10000)"
    by (simp add: d determineStaleAt_def emptyDirectives_def Let_def)
  have dw: "determineDeleteAt ?d (Fin 10000) = Fin 10000"
    by (simp add: d determineDeleteAt_def emptyDirectives_def)
  have "property ?h ''length'' = Undefined"
    by (simp add: H property_def)
  then have strip: "stripNecessaryHeaders E raw ?h ?d = Inr (map Some raw)"
    by (intro strip_without_length) (simp add: NU)
  have tw: "truthy_number (Fin 10000)" by simp
  note built = onHeaders_builds [OF adm can w tw strip, where now = now and resume = resume,
      simplified dw c]
  show ?thesis
    using fitsb commit
    by (simp add: exchange_def built forward_onHeaders_def invoke_def feed_effect
          overflows_def getMaxEntrySize_def onComplete_def forward_onComplete_def settle_def
          Let_def split: prod.splits put_outcome.splits option.splits)
qed

theorem public_max_age_is_committed_witness:
  "map (timestamps \<circ> snd) (committed (exchange node 1000 1000 start 200
       [''cache-control'', ''public, max-age=10'', ''content-length'', ''3'']
       0 (Some ''OK'') None [''abc''] (Some []))) = [(Fin 1000, Fin 11000, Fin 11000)] \<and>
   map (body \<circ> snd) (committed (exchange node 1000 1000 start 200
       [''cache-control'', ''public, max-age=10'', ''content-length'', ''3'']
       0 (Some ''OK'') None [''abc''] (Some []))) = [[''abc'']]"
proof -
  let ?raw = "[''cache-control'', ''public, max-age=10'', ''content-length'', ''3'']"
  have H: "defaultHeaders node ?raw None =
             [(''cache-control'', Str ''public, max-age=10''), (''content-length'', Str ''3'')]"
    by code_simp
  have P: "parseCacheControlHeader node (Str ''public, max-age=10'') =
             emptyDirectives\<lparr>public := True, max_age := Some 10\<rparr>"
    by code_simp
  have N3: "Number node (Str ''3'') = Fin 3" by code_simp
  have NU: "Number node Undefined = NaN" by code_simp
  have room: "gt (getMaxEntrySize start)
                (add (add (currentSize ?raw (Some ''OK'')) (Fin 3))
                   (Fin (of_nat (sum_list (map length ([] :: string list))))))"
    by code_simp
  have count: "\<not> ge (entryCount (store start)) (maxEntries (store start))" by code_simp
  from public_max_age_is_committed [OF H P N3 NU room count, of 1000 1000 0]
  obtain st3 e where
    x: "exchange node 1000 1000 start 200 ?raw 0 (Some ''OK'') None [''abc''] (Some []) = Inr st3"
    and p: "puts (store st3) = puts (store start) @ [(req start, e)]"
    and e: "cachedAt e = Fin 1000" "staleAt e = add (cachedAt e) (Fin 10000)"
      "deleteAt e = staleAt e" "body e = [''abc'']"
    by auto
  have "puts (store start) = []" by code_simp
  with p e show ?thesis
    unfolding x by (simp add: committed_def timestamps_def)
qed

theorem max_age_alone_counterexample:
  "committed (exchange node 1000 1000 start 200
       [''cache-control'', ''max-age=10'', ''content-length'', ''3'']
       0 (Some ''OK'') None [''abc''] (Some [])) = [] \<and>
   parseCacheControlHeader node (Str ''max-age=10'') = emptyDirectives\<lparr>max_age := Some 10\<rparr>"
  by code_simp




text \<open>
  C4 (what the code does). Whenever the parsed headers have no \<open>length\<close> property that
  converts to a positive number, the loop of \<open>stripNecessaryHeaders\<close> does not run, and
  the entry that \<open>onHeaders\<close> builds stores the raw header list as it came, with
  \<open>Connection\<close> and the headers named by \<open>no-cache\<close> or \<open>private\<close> still in it.
\<close>

theorem raw_headers_stored_unstripped:
  assumes "onHeaders E now dateNow st code raw resume message hdrs = Inr (r, st1)"
    and "value' st1 \<noteq> value' st"
    and "\<not> lt (Fin 0) (Number E (property (defaultHeaders E raw hdrs) ''length''))"
  shows "map_option rawHeaders (value' st1) = Some (map Some raw)"
proof -
  from onHeaders_value [OF assms(1,2)] obtain stripped where
    "stripNecessaryHeaders E raw (defaultHeaders E raw hdrs)
       (parseCacheControlHeader E (property (defaultHeaders E raw hdrs) ''cache-control'')) = Inr stripped"
    and "map_option rawHeaders (value' st1) = Some stripped"
    by auto
  with strip_without_length [OF assms(3)] show ?thesis by simp
qed

theorem raw_headers_stored_unstripped_witness:
  "map_option rawHeaders (entry_after (onHeaders node 1000 1000 start 200
      [''cache-control'', ''public, max-age=10, no-cache=\"set-cookie\"'', ''content-length'', ''3'',
       ''connection'', ''close'', ''set-cookie'', ''id=1''] 0 (Some ''OK'') None)) =
     Some [Some ''cache-control'', Some ''public, max-age=10, no-cache=\"set-cookie\"'',
           Some ''content-length'', Some ''3'', Some ''connection'', Some ''close'',
           Some ''set-cookie'', Some ''id=1'']"
proof -
  let ?raw = "[''cache-control'', ''public, max-age=10, no-cache=\"set-cookie\"'', ''content-length'',
               ''3'', ''connection'', ''close'', ''set-cookie'', ''id=1'']"
  let ?x = "onHeaders node 1000 1000 start 200 ?raw 0 (Some ''OK'') None"
  have "\<not> isl ?x" by code_simp
  then obtain r st1 where x: "?x = Inr (r, st1)" using returned by fastforce
  have "value' (snd (projr ?x)) \<noteq> value' start" by code_simp
  with x have changed: "value' st1 \<noteq> value' start" by simp
  have nolength: "\<not> lt (Fin 0) (Number node (property (defaultHeaders node ?raw None) ''length''))"
    by code_simp
  from raw_headers_stored_unstripped [OF x changed nolength]
  show ?thesis unfolding x by (simp add: entry_after_def)
qed

text \<open>
  C5 (what the code does). With no truthy \<open>s-maxage\<close>, no \<open>immutable\<close> and no truthy
  \<open>max-age\<close>, \<open>determineStaleAt\<close> reads the property \<open>expire\<close> of the parsed headers: when
  it is there and not empty, the window is the time now minus that date; otherwise there
  is no window. The property \<open>expires\<close>, under which an \<open>Expires\<close> header is parsed, is
  never read.
\<close>

theorem expire_property_decides:
  assumes "\<not> truthy_seconds (s_maxage d)" and "\<not> immutable d" and "\<not> truthy_seconds (max_age d)"
  shows "determineStaleAt E dateNow h d =
           (if truthy (property h ''expire'')
            then Some (sub (Fin (of_int dateNow)) (getTime E (property h ''expire'')))
            else None)"
  using assms by (simp add: determineStaleAt_def Let_def)

theorem expire_property_decides_witness:
  "determineStaleAt node 1000
     [(''cache-control'', Str ''public''), (''content-length'', Str ''3''),
      (''expires'', Str ''Thu, 01 Jan 1970 00:00:00 GMT'')]
     (parseCacheControlHeader node (Str ''public'')) = None \<and>
   determineStaleAt node 1000
     [(''cache-control'', Str ''public''), (''content-length'', Str ''3''),
      (''expire'', Str ''Thu, 01 Jan 1970 00:00:00 GMT'')]
     (parseCacheControlHeader node (Str ''public'')) = Some (Fin 1000)"
proof -
  let ?d = "parseCacheControlHeader node (Str ''public'')"
  let ?hs = "[(''cache-control'', Str ''public''), (''content-length'', Str ''3''),
              (''expires'', Str ''Thu, 01 Jan 1970 00:00:00 GMT'')]"
  let ?h = "[(''cache-control'', Str ''public''), (''content-length'', Str ''3''),
             (''expire'', Str ''Thu, 01 Jan 1970 00:00:00 GMT'')]"
  have d: "\<not> truthy_seconds (s_maxage ?d)" "\<not> immutable ?d" "\<not> truthy_seconds (max_age ?d)"
    by code_simp+
  have "\<not> truthy (property ?hs ''expire'')" by code_simp
  with expire_property_decides [OF d, of node 1000 ?hs]
  have a: "determineStaleAt node 1000 ?hs ?d = None" by simp
  have "truthy (property ?h ''expire'')" by code_simp
  moreover have "sub (Fin (of_int 1000)) (getTime node (property ?h ''expire'')) = Fin 1000"
    by code_simp
  ultimately have b: "determineStaleAt node 1000 ?h ?d = Some (Fin 1000)"
    using expire_property_decides [OF d, of node 1000 ?h] by simp
  from a b show ?thesis by simp
qed

text \<open>
  C6 (what the code does). Without a truthy \<open>s-maxage\<close>, \<open>immutable\<close> gives the window
  31536000, whatever \<open>max-age\<close> and the headers say, and the window is added to
  \<open>cachedAt\<close> as it is: the entry's \<open>staleAt\<close> is \<open>cachedAt\<close> plus 31536000 milliseconds,
  while the windows from \<open>s-maxage\<close> and \<open>max-age\<close> are multiplied by 1000 first.
\<close>

theorem immutable_window_in_seconds:
  assumes "onHeaders E now dateNow st code raw resume message hdrs = Inr (r, st1)"
    and "value' st1 \<noteq> value' st"
    and "\<not> truthy_seconds (s_maxage
            (parseCacheControlHeader E (property (defaultHeaders E raw hdrs) ''cache-control'')))"
    and "immutable (parseCacheControlHeader E (property (defaultHeaders E raw hdrs) ''cache-control''))"
  shows "\<exists>e. value' st1 = Some e \<and> cachedAt e = Fin (of_int now) \<and>
              staleAt e = add (cachedAt e) (Fin 31536000)"
proof -
  let ?h = "defaultHeaders E raw hdrs"
  let ?d = "parseCacheControlHeader E (property ?h ''cache-control'')"
  from assms(3,4) have "determineStaleAt E dateNow ?h ?d = Some (Fin 31536000)"
    by (simp add: determineStaleAt_def Let_def)
  with onHeaders_value [OF assms(1,2)] show ?thesis by auto
qed

theorem immutable_window_in_seconds_witness:
  "map_option timestamps (entry_after (onHeaders node 1000 1000 start 200
      [''cache-control'', ''public, immutable, max-age=60'', ''content-length'', ''3'']
      0 (Some ''OK'') None)) = Some (Fin 1000, Fin 31537000, Fin 31537000)"
proof -
  let ?raw = "[''cache-control'', ''public, immutable, max-age=60'', ''content-length'', ''3'']"
  let ?x = "onHeaders node 1000 1000 start 200 ?raw 0 (Some ''OK'') None"
  let ?d = "parseCacheControlHeader node (property (defaultHeaders node ?raw None) ''cache-control'')"
  have "\<not> isl ?x" by code_simp
  then obtain r st1 where x: "?x = Inr (r, st1)" using returned by fastforce
  have "value' (snd (projr ?x)) \<noteq> value' start" by code_simp
  with x have changed: "value' st1 \<noteq> value' start" by simp
  have d: "\<not> truthy_seconds (s_maxage ?d)" "immutable ?d" by code_simp+
  from immutable_window_in_seconds [OF x changed d]
  obtain e where e: "value' st1 = Some e" "cachedAt e = Fin 1000"
    "staleAt e = add (cachedAt e) (Fin 31536000)" by auto
  have "map_option deleteAt (value' (snd (projr ?x))) = Some (Fin 31537000)" by code_simp
  with x e have "deleteAt e = Fin 31537000" by simp
  with e show ?thesis unfolding x by (simp add: entry_after_def timestamps_def)
qed

text \<open>
  C7 (as amended). A call of \<open>onHeaders\<close> changes the provisional entry only when the
  response is admissible: \<open>Cache-Control\<close> and \<open>Content-Length\<close> are present and not
  empty, \<open>Content-Length\<close> converts to an integer (of either sign), neither it nor the
  current size exceeds the store's \<open>maxEntrySize\<close>, and \<open>entryCount\<close> is not at or above
  \<open>maxEntries\<close>. In every other case the response is forwarded unchanged, to a wrapped
  handler that implements \<open>onHeaders\<close>: the call does nothing but call that method
  with the same arguments and return its value. No entry is created, and the whole
  response, handled by a fresh handler, runs to its end and commits nothing.
\<close>

theorem entry_only_when_admissible:
  "(\<forall>r st1. onHeaders E now dateNow st code raw resume message hdrs = Inr (r, st1) \<longrightarrow>
      value' st1 \<noteq> value' st \<longrightarrow> admissible E st raw message (defaultHeaders E raw hdrs)) \<and>
   (\<not> admissible E st raw message (defaultHeaders E raw hdrs) \<and> has_onHeaders (handler st) \<longrightarrow>
      onHeaders E now dateNow st code raw resume message hdrs =
        Inr (returns (handler st) (calls st)
               (OnHeaders code raw resume message (defaultHeaders E raw hdrs)),
             st\<lparr>calls := calls st @
               [OnHeaders code raw resume message (defaultHeaders E raw hdrs)]\<rparr>)) \<and>
   (\<not> admissible E st raw message (defaultHeaders E raw hdrs) \<and> value' st = None \<longrightarrow>
      (\<forall>st3. exchange E now dateNow st code raw resume message hdrs chunks trailers = Inr st3 \<longrightarrow>
         puts (store st3) = puts (store st) \<and> value' st3 = None) \<and>
      (has_onHeaders (handler st) \<longrightarrow>
         (\<exists>st3. exchange E now dateNow st code raw resume message hdrs chunks trailers = Inr st3)))"
proof -
  have one: "admissible E st raw message (defaultHeaders E raw hdrs)"
    if "onHeaders E now dateNow st code raw resume message hdrs = Inr (r, st1)"
      and "value' st1 \<noteq> value' st" for r st1
    using onHeaders_value [OF that] by blast
  have two: "onHeaders E now dateNow st code raw resume message hdrs =
        Inr (returns (handler st) (calls st)
               (OnHeaders code raw resume message (defaultHeaders E raw hdrs)),
             st\<lparr>calls := calls st @
               [OnHeaders code raw resume message (defaultHeaders E raw hdrs)]\<rparr>)"
    if "\<not> admissible E st raw message (defaultHeaders E raw hdrs)" and "has_onHeaders (handler st)"
    using onHeaders_inadmissible [OF that(1), of now dateNow code resume] that(2)
    by (simp add: call_onHeaders_def invoke_def)
  from one two exchange_inadmissible [of E st raw message hdrs now dateNow code resume chunks trailers]
  show ?thesis by blast
qed

theorem entry_only_when_admissible_witness:
  "admissible node start [''cache-control'', ''public, max-age=10'', ''content-length'', ''3'']
     (Some ''OK'')
     [(''cache-control'', Str ''public, max-age=10''), (''content-length'', Str ''3'')] \<and>
   map_sum id (\<lambda>rs. (fst rs, value' (snd rs), calls (snd rs)))
     (onHeaders node 1000 1000 start 200 [''content-length'', ''3''] 0 (Some ''OK'') None) =
     Inr (Some True, None,
          [OnHeaders 200 [''content-length'', ''3''] 0 (Some ''OK'') [(''content-length'', Str ''3'')]]) \<and>
   \<not> isl (exchange node 1000 1000 start 200 [''content-length'', ''3''] 0 (Some ''OK'') None
            [''abc''] (Some [])) \<and>
   committed (exchange node 1000 1000 start 200 [''content-length'', ''3''] 0 (Some ''OK'') None
            [''abc''] (Some [])) = []"
proof -
  let ?raw = "[''cache-control'', ''public, max-age=10'', ''content-length'', ''3'']"
  let ?x = "onHeaders node 1000 1000 start 200 ?raw 0 (Some ''OK'') None"
  have "\<not> isl ?x" by code_simp
  then obtain r st1 where x: "?x = Inr (r, st1)" using returned by fastforce
  have "value' (snd (projr ?x)) \<noteq> value' start" by code_simp
  with x have "value' st1 \<noteq> value' start" by simp
  with x entry_only_when_admissible [of node 1000 1000 start 200 ?raw 0 "Some ''OK''" None "[]" None]
  have "admissible node start ?raw (Some ''OK'') (defaultHeaders node ?raw None)" by blast
  moreover have "defaultHeaders node ?raw None =
      [(''cache-control'', Str ''public, max-age=10''), (''content-length'', Str ''3'')]"
    by code_simp
  ultimately have a: "admissible node start ?raw (Some ''OK'')
      [(''cache-control'', Str ''public, max-age=10''), (''content-length'', Str ''3'')]" by simp
  let ?raw2 = "[''content-length'', ''3'']"
  let ?y = "exchange node 1000 1000 start 200 ?raw2 0 (Some ''OK'') None [''abc''] (Some [])"
  note inst = entry_only_when_admissible [of node 1000 1000 start 200 ?raw2 0 "Some ''OK''" None
      "[''abc'']" "Some []"]
  have d2: "defaultHeaders node ?raw2 None = [(''content-length'', Str ''3'')]" by code_simp
  have na: "\<not> admissible node start ?raw2 (Some ''OK'') (defaultHeaders node ?raw2 None)" by code_simp
  have has: "has_onHeaders (handler start)" by code_simp
  have fresh: "value' start = None" by code_simp
  from inst na has
  have "onHeaders node 1000 1000 start 200 ?raw2 0 (Some ''OK'') None =
        Inr (returns (handler start) (calls start)
               (OnHeaders 200 ?raw2 0 (Some ''OK'') (defaultHeaders node ?raw2 None)),
             start\<lparr>calls := calls start @
               [OnHeaders 200 ?raw2 0 (Some ''OK'') (defaultHeaders node ?raw2 None)]\<rparr>)" by blast
  then have b: "map_sum id (\<lambda>rs. (fst rs, value' (snd rs), calls (snd rs)))
     (onHeaders node 1000 1000 start 200 ?raw2 0 (Some ''OK'') None) =
     Inr (Some True, None, [OnHeaders 200 ?raw2 0 (Some ''OK'') [(''content-length'', Str ''3'')]])"
    by (simp add: d2 start_def recorder_def)
  from inst na has fresh obtain st3 where y: "?y = Inr st3" by blast
  with inst na fresh have "puts (store st3) = puts (store start)" by blast
  moreover have "puts (store start) = []" by code_simp
  ultimately have c: "\<not> isl ?y" and d: "committed ?y = []"
    unfolding y by (simp_all add: committed_def)
  from a b c d show ?thesis by simp
qed

theorem negative_content_length_counterexample:
  "entry_after (onHeaders node 1000 1000 start 200
      [''cache-control'', ''public, max-age=10'', ''content-length'', ''-5''] 0 (Some ''OK'') None)
     \<noteq> None \<and>
   \<not> eligible node start [''cache-control'', ''public, max-age=10'', ''content-length'', ''-5'']
       (Some ''OK'')
       (defaultHeaders node [''cache-control'', ''public, max-age=10'', ''content-length'', ''-5''] None)"
  by code_simp



text \<open>
  C9 (as amended). Whenever an event method returns, the wrapped handler has received
  the call that corresponds to the event, with the event's arguments (the parsed headers
  in place of a \<open>headers\<close> argument left out), provided it has that method; the only
  other call it receives is \<open>onError\<close> with the reason, when completion handed an entry to
  the store and the promise that \<open>put\<close> returned is rejected. \<open>onHeaders\<close>, \<open>onData\<close> and
  \<open>onComplete\<close> return what the wrapped method returns (\<open>undefined\<close> when there is no such
  method), and \<open>onError\<close> returns \<open>undefined\<close>.
\<close>

theorem events_reach_the_wrapped_handler:
  assumes "dispatch E now dateNow st ev = Inr (r, st1)"
  shows "calls st1 = calls st @
           (if implements (handler st) ev then [forwarded E ev] else []) @
           (if has_onError (handler st)
            then rejections (put_result (store st))
                   (drop (length (puts (store st))) (puts (store st1)))
            else []) \<and>
         r = (case ev of
                Failure err \<Rightarrow> None
              | _ \<Rightarrow> if implements (handler st) ev
                     then returns (handler st) (calls st) (forwarded E ev) else None)"
proof (cases ev)
  case (Headers code raw resume message hdrs)
  with assms have h: "onHeaders E now dateNow st code raw resume message hdrs = Inr (r, st1)"
    by simp
  from onHeaders_frame [OF h] have "puts (store st1) = puts (store st)" by simp
  with onHeaders_calls [OF h] Headers show ?thesis by simp
next
  case (Data chunk)
  with assms have "onData st chunk = Inr (r, st1)" by simp
  with Data show ?thesis by (auto simp: onData_effect)
next
  case (Complete trailers)
  with assms have "onComplete st trailers = Inr (r, st1)" by simp
  from onComplete_calls [OF this] Complete show ?thesis by simp
next
  case (Failure err)
  with assms have "onError st err = Inr (r, st1)" by simp
  with Failure show ?thesis by (auto simp: onError_effect)
qed

theorem events_reach_the_wrapped_handler_witness:
  "map_sum id (\<lambda>x. (fst x, calls (snd x))) (dispatch node 1000 1000 rejecting (Complete (Some []))) =
     Inr (Some True, [OnComplete (Some []), OnError ''disk full'']) \<and>
   map_sum id (\<lambda>x. (fst x, calls (snd x))) (dispatch node 1000 1000 rejecting (Failure ''reset'')) =
     Inr (None, [OnError ''reset''])"
proof -
  let ?c = "dispatch node 1000 1000 rejecting (Complete (Some []))"
  let ?f = "dispatch node 1000 1000 rejecting (Failure ''reset'')"
  have "\<not> isl ?c" by code_simp
  then obtain r st1 where c: "?c = Inr (r, st1)" using returned by fastforce
  have "puts (store (snd (projr ?c))) = [(getRoot, pending\<lparr>complete' := True, rawTrailers := Some []\<rparr>)]"
    by code_simp
  with c have p: "puts (store st1) = [(getRoot, pending\<lparr>complete' := True, rawTrailers := Some []\<rparr>)]"
    by simp
  have facts: "calls rejecting = []" "has_onError (handler rejecting)"
    "implements (handler rejecting) (Complete (Some []))"
    "implements (handler rejecting) (Failure ''reset'')"
    "puts (store rejecting) = []"
    "put_result (store rejecting) getRoot (pending\<lparr>complete' := True, rawTrailers := Some []\<rparr>)
       = Promise (Some ''disk full'')"
    "returns (handler rejecting) [] (OnComplete (Some [])) = Some True"
    by code_simp+
  from events_reach_the_wrapped_handler [OF c] p facts
  have "calls st1 = [OnComplete (Some []), OnError ''disk full''] \<and> r = Some True"
    by simp
  then have a: "map_sum id (\<lambda>x. (fst x, calls (snd x))) ?c =
     Inr (Some True, [OnComplete (Some []), OnError ''disk full''])"
    unfolding c by simp
  have "\<not> isl ?f" by code_simp
  then obtain r2 st2 where f: "?f = Inr (r2, st2)" using returned by fastforce
  have "puts (store (snd (projr ?f))) = []" by code_simp
  with f have p2: "puts (store st2) = []" by simp
  from events_reach_the_wrapped_handler [OF f] p2 facts
  have "calls st2 = [OnError ''reset''] \<and> r2 = None"
    by simp
  then have b: "map_sum id (\<lambda>x. (fst x, calls (snd x))) ?f = Inr (None, [OnError ''reset''])"
    unfolding f by simp
  from a b show ?thesis by simp
qed

theorem rejected_put_counterexample:
  "\<not> transparent node 1000 1000 rejecting (Complete (Some [])) \<and>
   calls_after (dispatch node 1000 1000 rejecting (Complete (Some []))) =
     [OnComplete (Some []), OnError ''disk full'']"
  by code_simp



end
